theory Spec2Isabelle
  imports Main
begin

section \<open>Values, exceptions and collaborators\<close>

text \<open>
  The module \<^verbatim>\<open>quart/ctx.py\<close> holds the request, websocket and application contexts,
  the accessors \<^verbatim>\<open>has_*_context\<close> and \<^verbatim>\<open>after_this_request\<close>, and the \<^verbatim>\<open>g\<close> object.
  Exceptions are values. The first four are the classes imported from
  \<^verbatim>\<open>quart.exceptions\<close>; \<open>AttributeError\<close> and \<open>KeyError\<close> are the Python built-ins
  (the specification calls them \<^verbatim>\<open>NoActiveContextError\<close> and \<^verbatim>\<open>KeyNotFound\<close>);
  \<open>EmptyStackError\<close> is the failure the specification gives to a pop of an empty
  task-local stack; \<open>HookError\<close> stands for anything a user hook or a router raises.
\<close>

datatype exn =
    NotFound | MethodNotAllowed | RedirectRequired | BadRequest
  | AttributeError | KeyError | EmptyStackError | HookError string

datatype pyval = PyNone | PyBool bool | PyInt int | PyStr string

datatype callable = Callable string

datatype session = SessionData string | NullSession

type_synonym task = nat

record Rule =
  endpoint :: string
  is_websocket :: bool

text \<open>What one call of \<^verbatim>\<open>url_adapter.match()\<close> does: it returns a rule and the view
  arguments, or it raises.\<close>

datatype match_result = Matched Rule "(string \<times> string) list" | MatchRaises exn

record UrlAdapter =
  match_outcome :: match_result

text \<open>The request or websocket object: the three attributes \<^verbatim>\<open>ctx.py\<close> assigns.\<close>

record BaseRequestWebsocket =
  path :: string
  url_rule :: "Rule option"
  view_args :: "(string \<times> string) list option"
  routing_exception :: "exn option"

text \<open>
  The application handle, as far as \<^verbatim>\<open>ctx.py\<close> calls it. The class \<^verbatim>\<open>Quart\<close> lives in
  \<^verbatim>\<open>quart/app.py\<close>, so its methods are parameters here. A teardown hook is given by what
  it raises for the error it is called with (\<open>None\<close>: it returns normally); the hooks do
  not touch the context stacks.
\<close>

record Quart =
  name :: string
  create_url_adapter :: "BaseRequestWebsocket option \<Rightarrow> UrlAdapter"
  open_session :: "BaseRequestWebsocket \<Rightarrow> session option"
  make_null_session :: session
  do_teardown_request :: "exn option \<Rightarrow> exn option"
  do_teardown_appcontext :: "exn option \<Rightarrow> exn option"

section \<open>Context objects and the state of the program\<close>

type_synonym AppCtxGlobals = "string \<rightharpoonup> pyval"

record AppContext =
  appctx_app :: Quart
  appctx_url_adapter :: UrlAdapter
  g :: AppCtxGlobals
  app_reference_count :: int

record BaseContext =
  app :: Quart
  request_websocket :: BaseRequestWebsocket
  url_adapter :: UrlAdapter
  session :: "session option"

record RequestContext = BaseContext +
  after_request_functions :: "callable list"

type_synonym WebsocketContext = BaseContext

text \<open>Calls of the collaborators that the properties below count, in the order they happen.\<close>

datatype event =
    UrlAdapterMatch
  | AppcontextPushed string
  | AppcontextPopped string
  | TeardownRequest string "exn option"
  | TeardownAppcontext string "exn option"

text \<open>
  Context objects are mutable and shared (the stack and the caller hold the same
  object), so they live in stores indexed by an address; \<open>next_*\<close> is the first
  address not yet allocated. The three task-local stacks map a task to its stack,
  top first.
\<close>

record state =
  app_ctxs :: "nat \<Rightarrow> AppContext"
  next_app_ctx :: nat
  request_ctxs :: "nat \<Rightarrow> RequestContext"
  next_request_ctx :: nat
  websocket_ctxs :: "nat \<Rightarrow> WebsocketContext"
  next_websocket_ctx :: nat
  app_ctx_stack :: "task \<Rightarrow> nat list"
  request_ctx_stack :: "task \<Rightarrow> nat list"
  websocket_ctx_stack :: "task \<Rightarrow> nat list"
  log :: "event list"

section \<open>Task-local stacks and signals\<close>

text \<open>
  Modelled from the spec: the class behind \<^verbatim>\<open>_app_ctx_stack\<close>, \<^verbatim>\<open>_request_ctx_stack\<close> and
  \<^verbatim>\<open>_websocket_ctx_stack\<close> (\<^verbatim>\<open>quart/globals.py\<close>, \<^verbatim>\<open>quart/local.py\<close>) is missing.
  \<^verbatim>\<open>push(item)\<close> appends to the top for the calling task only; \<^verbatim>\<open>pop()\<close> removes and returns
  the top and fails with \<^verbatim>\<open>EmptyStackError\<close> if empty; \<^verbatim>\<open>top\<close> returns the current top or
  a null indicator and never raises.
\<close>

definition LocalStack_push :: "task \<Rightarrow> 'a \<Rightarrow> (task \<Rightarrow> 'a list) \<Rightarrow> (task \<Rightarrow> 'a list)" where
  "LocalStack_push t x st = st(t := x # st t)"

definition LocalStack_pop :: "task \<Rightarrow> (task \<Rightarrow> 'a list) \<Rightarrow> (exn + 'a) \<times> (task \<Rightarrow> 'a list)" where
  "LocalStack_pop t st =
     (case st t of
        [] \<Rightarrow> (Inl EmptyStackError, st)
      | x # xs \<Rightarrow> (Inr x, st(t := xs)))"

definition LocalStack_top :: "task \<Rightarrow> (task \<Rightarrow> 'a list) \<Rightarrow> 'a option" where
  "LocalStack_top t st = (case st t of [] \<Rightarrow> None | x # xs \<Rightarrow> Some x)"

text \<open>
  Modelled from the spec: the signals \<^verbatim>\<open>appcontext_pushed\<close> and \<^verbatim>\<open>appcontext_popped\<close>
  (\<^verbatim>\<open>quart/signals.py\<close>) are missing. Sending one delivers a notification that carries the
  application handle; the core does not depend on what subscribers do.
\<close>

definition appcontext_pushed_send :: "Quart \<Rightarrow> state \<Rightarrow> state" where
  "appcontext_pushed_send a s = s\<lparr>log := log s @ [AppcontextPushed (name a)]\<rparr>"

definition appcontext_popped_send :: "Quart \<Rightarrow> state \<Rightarrow> state" where
  "appcontext_popped_send a s = s\<lparr>log := log s @ [AppcontextPopped (name a)]\<rparr>"

text \<open>Calling a hook of the application records the call and raises what the hook raises.\<close>

definition call_do_teardown_appcontext :: "Quart \<Rightarrow> exn option \<Rightarrow> state \<Rightarrow> (exn + unit) \<times> state" where
  "call_do_teardown_appcontext a exc s =
     ((case do_teardown_appcontext a exc of None \<Rightarrow> Inr () | Some e \<Rightarrow> Inl e),
      s\<lparr>log := log s @ [TeardownAppcontext (name a) exc]\<rparr>)"

definition call_do_teardown_request :: "Quart \<Rightarrow> exn option \<Rightarrow> state \<Rightarrow> (exn + unit) \<times> state" where
  "call_do_teardown_request a exc s =
     ((case do_teardown_request a exc of None \<Rightarrow> Inr () | Some e \<Rightarrow> Inl e),
      s\<lparr>log := log s @ [TeardownRequest (name a) exc]\<rparr>)"

definition call_match :: "UrlAdapter \<Rightarrow> state \<Rightarrow> match_result \<times> state" where
  "call_match ad s = (match_outcome ad, s\<lparr>log := log s @ [UrlAdapterMatch]\<rparr>)"

section \<open>AppContext\<close>

text \<open>\<^verbatim>\<open>AppContext.__init__\<close>: a new object with reference count 0 and an empty \<^verbatim>\<open>g\<close>.\<close>

definition AppContext_init :: "Quart \<Rightarrow> state \<Rightarrow> nat \<times> state" where
  "AppContext_init a s =
     (next_app_ctx s,
      s\<lparr>app_ctxs := (app_ctxs s)(next_app_ctx s :=
           \<lparr>appctx_app = a, appctx_url_adapter = create_url_adapter a None,
            g = Map.empty, app_reference_count = 0\<rparr>),
        next_app_ctx := Suc (next_app_ctx s)\<rparr>)"

text \<open>
  Modelled from the spec: \<^verbatim>\<open>Quart.app_context\<close> (\<^verbatim>\<open>quart/app.py\<close>) is missing. Entering a
  request context with no application context active is to "construct one from the
  owning application", which the source writes \<^verbatim>\<open>self.app.app_context()\<close>: each call
  constructs a new AppContext for the application.
\<close>

definition app_context :: "Quart \<Rightarrow> state \<Rightarrow> nat \<times> state" where
  "app_context a s = AppContext_init a s"

definition AppContext_push :: "task \<Rightarrow> nat \<Rightarrow> state \<Rightarrow> state" where
  "AppContext_push t self s =
     (let s1 = s\<lparr>app_ctxs := (app_ctxs s)(self := (app_ctxs s self)
                   \<lparr>app_reference_count := app_reference_count (app_ctxs s self) + 1\<rparr>)\<rparr>;
          s2 = s1\<lparr>app_ctx_stack := LocalStack_push t self (app_ctx_stack s1)\<rparr>
      in appcontext_pushed_send (appctx_app (app_ctxs s2 self)) s2)"

text \<open>
  \<^verbatim>\<open>AppContext.pop\<close>. The \<^verbatim>\<open>finally\<close> clause pops the stack whatever the \<^verbatim>\<open>try\<close> block
  did; an exception of the \<^verbatim>\<open>finally\<close> clause replaces the pending one; the signal is
  sent only when neither raised.
\<close>

definition AppContext_pop :: "task \<Rightarrow> nat \<Rightarrow> exn option \<Rightarrow> state \<Rightarrow> (exn + unit) \<times> state" where
  "AppContext_pop t self exc s =
     (let s1 = s\<lparr>app_ctxs := (app_ctxs s)(self := (app_ctxs s self)
                   \<lparr>app_reference_count := app_reference_count (app_ctxs s self) - 1\<rparr>)\<rparr>;
          (r, s2) = (if app_reference_count (app_ctxs s1 self) \<le> 0
                     then call_do_teardown_appcontext (appctx_app (app_ctxs s1 self)) exc s1
                     else (Inr (), s1));
          (p, st) = LocalStack_pop t (app_ctx_stack s2);
          s3 = s2\<lparr>app_ctx_stack := st\<rparr>
      in case p of
           Inl e \<Rightarrow> (Inl e, s3)
         | Inr _ \<Rightarrow>
             (case r of
                Inl e \<Rightarrow> (Inl e, s3)
              | Inr _ \<Rightarrow> (Inr (), appcontext_popped_send (appctx_app (app_ctxs s3 self)) s3)))"

definition AppContext_aenter :: "task \<Rightarrow> nat \<Rightarrow> state \<Rightarrow> nat \<times> state" where
  "AppContext_aenter t self s = (self, AppContext_push t self s)"

definition AppContext_aexit :: "task \<Rightarrow> nat \<Rightarrow> exn option \<Rightarrow> state \<Rightarrow> (exn + unit) \<times> state" where
  "AppContext_aexit t self exc_value s = AppContext_pop t self exc_value s"

section \<open>The base of RequestContext and WebsocketContext\<close>

text \<open>The exceptions named by the \<^verbatim>\<open>except\<close> clause of \<^verbatim>\<open>match_request\<close>.\<close>

definition routing_failure :: "exn \<Rightarrow> bool" where
  "routing_failure e = (e = NotFound \<or> e = MethodNotAllowed \<or> e = RedirectRequired)"

text \<open>
  \<^verbatim>\<open>_BaseRequestWebsocketContext.match_request\<close>: one call of \<^verbatim>\<open>match\<close>; the three
  exceptions of the \<^verbatim>\<open>except\<close> clause are stored, any other one propagates.
\<close>

definition Base_match_request ::
  "'a BaseContext_scheme \<Rightarrow> state \<Rightarrow> (exn + 'a BaseContext_scheme) \<times> state" where
  "Base_match_request self s =
     (case call_match (url_adapter self) s of
        (Matched rule args, s1) \<Rightarrow>
          (Inr (self\<lparr>request_websocket :=
                  (request_websocket self)\<lparr>url_rule := Some rule, view_args := Some args\<rparr>\<rparr>), s1)
      | (MatchRaises error, s1) \<Rightarrow>
          (if routing_failure error
           then (Inr (self\<lparr>request_websocket :=
                   (request_websocket self)\<lparr>routing_exception := Some error\<rparr>\<rparr>), s1)
           else (Inl error, s1)))"

text \<open>
  \<^verbatim>\<open>_BaseRequestWebsocketContext.__init__\<close>. The call \<^verbatim>\<open>self.match_request()\<close> is
  dispatched on the class of the object, so the method is a parameter. The request
  object is held by the context.
\<close>

definition Base_init ::
  "(BaseContext \<Rightarrow> state \<Rightarrow> (exn + BaseContext) \<times> state) \<Rightarrow> Quart \<Rightarrow> BaseRequestWebsocket
     \<Rightarrow> state \<Rightarrow> (exn + BaseContext) \<times> state" where
  "Base_init match_request a rw s =
     match_request
       \<lparr>app = a, request_websocket = rw\<lparr>routing_exception := None\<rparr>,
        url_adapter = create_url_adapter a (Some rw), session = None\<rparr> s"

text \<open>\<^verbatim>\<open>_BaseRequestWebsocketContext.__aenter__\<close>.\<close>

definition Base_aenter :: "task \<Rightarrow> 'a BaseContext_scheme \<Rightarrow> state \<Rightarrow> 'a BaseContext_scheme \<times> state" where
  "Base_aenter t self s =
     (let s1 = (if LocalStack_top t (app_ctx_stack s) = None
                then (let (app_ctx, s') = app_context (app self) s
                      in AppContext_push t app_ctx s')
                else s);
          self1 = self\<lparr>session := open_session (app self) (request_websocket self)\<rparr>;
          self2 = (if session self1 = None
                   then self1\<lparr>session := Some (make_null_session (app self))\<rparr>
                   else self1)
      in (self2, s1))"

text \<open>\<^verbatim>\<open>_BaseRequestWebsocketContext.__aexit__\<close>: \<^verbatim>\<open>self.app.app_context().pop(exc_value)\<close>.\<close>

definition Base_aexit :: "task \<Rightarrow> 'a BaseContext_scheme \<Rightarrow> exn option \<Rightarrow> state \<Rightarrow> (exn + unit) \<times> state" where
  "Base_aexit t self exc_value s =
     (let (app_ctx, s1) = app_context (app self) s
      in AppContext_pop t app_ctx exc_value s1)"

section \<open>RequestContext\<close>

definition RequestContext_init :: "Quart \<Rightarrow> BaseRequestWebsocket \<Rightarrow> state \<Rightarrow> (exn + nat) \<times> state" where
  "RequestContext_init a request s =
     (case Base_init Base_match_request a request s of
        (Inl e, s1) \<Rightarrow> (Inl e, s1)
      | (Inr c, s1) \<Rightarrow>
          (Inr (next_request_ctx s1),
           s1\<lparr>request_ctxs := (request_ctxs s1)(next_request_ctx s1 :=
                 \<lparr>app = app c, request_websocket = request_websocket c,
                  url_adapter = url_adapter c, session = session c,
                  after_request_functions = []\<rparr>),
              next_request_ctx := Suc (next_request_ctx s1)\<rparr>))"

definition RequestContext_aenter :: "task \<Rightarrow> nat \<Rightarrow> state \<Rightarrow> nat \<times> state" where
  "RequestContext_aenter t self s =
     (let (c, s1) = Base_aenter t (request_ctxs s self) s;
          s2 = s1\<lparr>request_ctxs := (request_ctxs s1)(self := c)\<rparr>
      in (self, s2\<lparr>request_ctx_stack := LocalStack_push t self (request_ctx_stack s2)\<rparr>))"

definition RequestContext_aexit :: "task \<Rightarrow> nat \<Rightarrow> exn option \<Rightarrow> state \<Rightarrow> (exn + unit) \<times> state" where
  "RequestContext_aexit t self exc_value s =
     (case call_do_teardown_request (app (request_ctxs s self)) exc_value s of
        (Inl e, s1) \<Rightarrow> (Inl e, s1)
      | (Inr _, s1) \<Rightarrow>
          (case LocalStack_pop t (request_ctx_stack s1) of
             (Inl e, st) \<Rightarrow> (Inl e, s1\<lparr>request_ctx_stack := st\<rparr>)
           | (Inr _, st) \<Rightarrow>
               Base_aexit t (request_ctxs s1 self) exc_value (s1\<lparr>request_ctx_stack := st\<rparr>)))"

section \<open>WebsocketContext\<close>

text \<open>
  \<^verbatim>\<open>WebsocketContext.match_request\<close>. The \<^verbatim>\<open>and\<close> reads \<^verbatim>\<open>url_rule\<close> only when no routing
  exception is stored; reading \<^verbatim>\<open>is_websocket\<close> of \<^verbatim>\<open>None\<close> raises AttributeError.
\<close>

definition Websocket_match_request :: "BaseContext \<Rightarrow> state \<Rightarrow> (exn + BaseContext) \<times> state" where
  "Websocket_match_request self s =
     (case Base_match_request self s of
        (Inl e, s1) \<Rightarrow> (Inl e, s1)
      | (Inr c, s1) \<Rightarrow>
          (if routing_exception (request_websocket c) = None
           then (case url_rule (request_websocket c) of
                   None \<Rightarrow> (Inl AttributeError, s1)
                 | Some rule \<Rightarrow>
                     (if \<not> is_websocket rule
                      then (Inr (c\<lparr>request_websocket :=
                              (request_websocket c)\<lparr>routing_exception := Some BadRequest\<rparr>\<rparr>), s1)
                      else (Inr c, s1)))
           else (Inr c, s1)))"

definition WebsocketContext_init :: "Quart \<Rightarrow> BaseRequestWebsocket \<Rightarrow> state \<Rightarrow> (exn + nat) \<times> state" where
  "WebsocketContext_init a websocket s =
     (case Base_init Websocket_match_request a websocket s of
        (Inl e, s1) \<Rightarrow> (Inl e, s1)
      | (Inr c, s1) \<Rightarrow>
          (Inr (next_websocket_ctx s1),
           s1\<lparr>websocket_ctxs := (websocket_ctxs s1)(next_websocket_ctx s1 := c),
              next_websocket_ctx := Suc (next_websocket_ctx s1)\<rparr>))"

definition WebsocketContext_aenter :: "task \<Rightarrow> nat \<Rightarrow> state \<Rightarrow> nat \<times> state" where
  "WebsocketContext_aenter t self s =
     (let (c, s1) = Base_aenter t (websocket_ctxs s self) s;
          s2 = s1\<lparr>websocket_ctxs := (websocket_ctxs s1)(self := c)\<rparr>
      in (self, s2\<lparr>websocket_ctx_stack := LocalStack_push t self (websocket_ctx_stack s2)\<rparr>))"

definition WebsocketContext_aexit :: "task \<Rightarrow> nat \<Rightarrow> exn option \<Rightarrow> state \<Rightarrow> (exn + unit) \<times> state" where
  "WebsocketContext_aexit t self exc_value s =
     (case LocalStack_pop t (websocket_ctx_stack s) of
        (Inl e, st) \<Rightarrow> (Inl e, s\<lparr>websocket_ctx_stack := st\<rparr>)
      | (Inr _, st) \<Rightarrow>
          Base_aexit t (websocket_ctxs s self) exc_value (s\<lparr>websocket_ctx_stack := st\<rparr>))"

section \<open>Accessors\<close>

text \<open>
  \<^verbatim>\<open>after_this_request\<close>: \<^verbatim>\<open>_request_ctx_stack.top._after_request_functions.append(func)\<close>.
  With no request context the top is \<^verbatim>\<open>None\<close> and the attribute access raises
  AttributeError.
\<close>

definition after_this_request :: "task \<Rightarrow> callable \<Rightarrow> state \<Rightarrow> (exn + callable) \<times> state" where
  "after_this_request t func s =
     (case LocalStack_top t (request_ctx_stack s) of
        None \<Rightarrow> (Inl AttributeError, s)
      | Some ctx \<Rightarrow>
          (Inr func,
           s\<lparr>request_ctxs := (request_ctxs s)(ctx := (request_ctxs s ctx)
                \<lparr>after_request_functions := after_request_functions (request_ctxs s ctx) @ [func]\<rparr>)\<rparr>))"

definition has_app_context :: "task \<Rightarrow> state \<Rightarrow> bool" where
  "has_app_context t s = (LocalStack_top t (app_ctx_stack s) \<noteq> None)"

definition has_request_context :: "task \<Rightarrow> state \<Rightarrow> bool" where
  "has_request_context t s = (LocalStack_top t (request_ctx_stack s) \<noteq> None)"

definition has_websocket_context :: "task \<Rightarrow> state \<Rightarrow> bool" where
  "has_websocket_context t s = (LocalStack_top t (websocket_ctx_stack s) \<noteq> None)"

section \<open>The g object\<close>

text \<open>Python's \<^verbatim>\<open>dict.pop(key)\<close> and \<^verbatim>\<open>dict.pop(key, default)\<close>.\<close>

definition dict_pop :: "('k \<rightharpoonup> 'v) \<Rightarrow> 'k \<Rightarrow> (exn + 'v) \<times> ('k \<rightharpoonup> 'v)" where
  "dict_pop d k = (case d k of None \<Rightarrow> (Inl KeyError, d) | Some v \<Rightarrow> (Inr v, d(k := None)))"

definition dict_pop_default :: "('k \<rightharpoonup> 'v) \<Rightarrow> 'k \<Rightarrow> 'v \<Rightarrow> 'v \<times> ('k \<rightharpoonup> 'v)" where
  "dict_pop_default d k dflt = (case d k of None \<Rightarrow> (dflt, d) | Some v \<Rightarrow> (v, d(k := None)))"

text \<open>
  \<^verbatim>\<open>_AppCtxGlobals.pop\<close>. The argument \<open>dflt\<close> (Python's \<^verbatim>\<open>default\<close>) is \<open>None\<close> when the caller gave none
  (the parameter is then the module's \<^verbatim>\<open>_sentinel\<close>).
\<close>

definition AppCtxGlobals_pop ::
  "AppCtxGlobals \<Rightarrow> string \<Rightarrow> pyval option \<Rightarrow> (exn + pyval) \<times> AppCtxGlobals" where
  "AppCtxGlobals_pop self nm dflt =
     (case dflt of
        None \<Rightarrow> dict_pop self nm
      | Some d \<Rightarrow> (let (v, self') = dict_pop_default self nm d in (Inr v, self')))"

section \<open>Observations and scenarios\<close>

text \<open>The application-context teardown calls made so far: application name and error.\<close>

definition teardown_appcontext_calls :: "state \<Rightarrow> (string \<times> exn option) list" where
  "teardown_appcontext_calls s =
     List.map_filter (\<lambda>ev. case ev of TeardownAppcontext n e \<Rightarrow> Some (n, e) | _ \<Rightarrow> None) (log s)"

text \<open>The number of calls of \<^verbatim>\<open>url_adapter.match()\<close> made so far.\<close>

definition match_calls :: "state \<Rightarrow> nat" where
  "match_calls s = length (filter (\<lambda>ev. ev = UrlAdapterMatch) (log s))"

text \<open>A handler that registers the callbacks \<open>fs\<close> one after the other.\<close>

fun register_callbacks :: "task \<Rightarrow> callable list \<Rightarrow> state \<Rightarrow> state" where
  "register_callbacks t [] s = s"
| "register_callbacks t (f # fs) s = register_callbacks t fs (snd (after_this_request t f s))"

text \<open>
  Concrete applications and states: an application whose router gives \<open>outcome\<close> and
  whose teardown hooks raise what is given (or nothing); the state of a program that
  has created no context; and the states reached from it.
\<close>

definition test_app :: "match_result \<Rightarrow> exn option \<Rightarrow> exn option \<Rightarrow> Quart" where
  "test_app outcome request_teardown appcontext_teardown =
     \<lparr>name = ''app'',
      create_url_adapter = (\<lambda>_. \<lparr>match_outcome = outcome\<rparr>),
      open_session = (\<lambda>_. None),
      make_null_session = NullSession,
      do_teardown_request = (\<lambda>_. request_teardown),
      do_teardown_appcontext = (\<lambda>_. appcontext_teardown)\<rparr>"

definition index_rule :: Rule where
  "index_rule = \<lparr>endpoint = ''index'', is_websocket = False\<rparr>"

definition plain_app :: Quart where
  "plain_app = test_app (Matched index_rule []) None None"

definition index_request :: BaseRequestWebsocket where
  "index_request = \<lparr>path = ''/'', url_rule = None, view_args = None, routing_exception = None\<rparr>"

definition init_state :: state where
  "init_state =
     \<lparr>app_ctxs = (\<lambda>_. \<lparr>appctx_app = plain_app, appctx_url_adapter = create_url_adapter plain_app None,
                        g = Map.empty, app_reference_count = 0\<rparr>),
      next_app_ctx = 0,
      request_ctxs = (\<lambda>_. \<lparr>app = plain_app, request_websocket = index_request,
                            url_adapter = create_url_adapter plain_app None, session = None,
                            after_request_functions = []\<rparr>),
      next_request_ctx = 0,
      websocket_ctxs = (\<lambda>_. \<lparr>app = plain_app, request_websocket = index_request,
                            url_adapter = create_url_adapter plain_app None, session = None\<rparr>),
      next_websocket_ctx = 0,
      app_ctx_stack = (\<lambda>_. []),
      request_ctx_stack = (\<lambda>_. []),
      websocket_ctx_stack = (\<lambda>_. []),
      log = []\<rparr>"

text \<open>Task 0 has entered an AppContext of \<open>a\<close> (address 0).\<close>

definition pushed_state :: "Quart \<Rightarrow> state" where
  "pushed_state a = AppContext_push 0 0 (snd (AppContext_init a init_state))"

text \<open>A RequestContext of \<open>a\<close> has been constructed (address 0) and not entered.\<close>

definition request_state :: "Quart \<Rightarrow> state" where
  "request_state a = snd (RequestContext_init a index_request init_state)"

text \<open>Task 0 has entered that RequestContext.\<close>

definition entered_state :: "Quart \<Rightarrow> state" where
  "entered_state a = snd (RequestContext_aenter 0 0 (request_state a))"

text \<open>Task 0 has entered an AppContext, and a RequestContext has been constructed.\<close>

definition nested_state :: state where
  "nested_state = snd (RequestContext_init plain_app index_request (pushed_state plain_app))"

definition failing_request_teardown_app :: Quart where
  "failing_request_teardown_app =
     test_app (Matched index_rule []) (Some (HookError ''teardown'')) None"

definition failing_appcontext_teardown_app :: Quart where
  "failing_appcontext_teardown_app =
     test_app (Matched index_rule []) None (Some (HookError ''teardown''))"

definition not_found_app :: Quart where
  "not_found_app = test_app (MatchRaises NotFound) None None"

section \<open>Auxiliary facts\<close>

lemmas scenario_defs =
  test_app_def index_rule_def plain_app_def index_request_def init_state_def pushed_state_def
  request_state_def entered_state_def nested_state_def failing_request_teardown_app_def
  failing_appcontext_teardown_app_def not_found_app_def

lemmas model_defs =
  LocalStack_push_def LocalStack_pop_def LocalStack_top_def appcontext_pushed_send_def
  appcontext_popped_send_def call_do_teardown_appcontext_def call_do_teardown_request_def
  call_match_def AppContext_init_def app_context_def AppContext_push_def AppContext_pop_def
  routing_failure_def Base_match_request_def Base_init_def Base_aenter_def Base_aexit_def
  RequestContext_init_def RequestContext_aenter_def RequestContext_aexit_def
  Websocket_match_request_def WebsocketContext_init_def teardown_appcontext_calls_def
  match_calls_def List.map_filter_simps Let_def

lemma map_filter_append:
  "List.map_filter f (xs @ ys) = List.map_filter f xs @ List.map_filter f ys"
  by (simp add: List.map_filter_def)

section \<open>The g object: pop\<close>

text \<open>
  Claim C9. For every store and key: \<^verbatim>\<open>pop\<close> without a default fails with KeyError (the
  specification's \<^verbatim>\<open>KeyNotFound\<close>) when the key is absent; \<^verbatim>\<open>pop\<close> with a default returns
  the stored value and removes the key when it is present, and returns the default and
  leaves the store as it was when the key is absent.
\<close>

theorem AppCtxGlobals_pop_cases:
  "(self nm = None \<longrightarrow> AppCtxGlobals_pop self nm None = (Inl KeyError, self)) \<and>
   (self nm = Some v \<longrightarrow>
      AppCtxGlobals_pop self nm (Some d) = (Inr v, self(nm := None)) \<and>
      nm \<notin> dom (snd (AppCtxGlobals_pop self nm (Some d)))) \<and>
   (self nm = None \<longrightarrow> AppCtxGlobals_pop self nm (Some d) = (Inr d, self))"
  by (simp add: AppCtxGlobals_pop_def dict_pop_def dict_pop_default_def)

text \<open>The three cases on a store that holds \<^verbatim>\<open>user\<close> and on the empty store.\<close>

theorem AppCtxGlobals_pop_cases_witness:
  "(Map.empty :: AppCtxGlobals) ''user'' = None \<and>
   [''user'' \<mapsto> PyInt 7] ''user'' = Some (PyInt 7) \<and>
   AppCtxGlobals_pop Map.empty ''user'' None = (Inl KeyError, Map.empty) \<and>
   AppCtxGlobals_pop [''user'' \<mapsto> PyInt 7] ''user'' (Some PyNone)
     = (Inr (PyInt 7), [''user'' \<mapsto> PyInt 7](''user'' := None)) \<and>
   AppCtxGlobals_pop Map.empty ''user'' (Some PyNone) = (Inr PyNone, Map.empty)"
  using AppCtxGlobals_pop_cases [where self = Map.empty and nm = "''user''" and d = PyNone]
    AppCtxGlobals_pop_cases [where self = "[''user'' \<mapsto> PyInt 7]" and nm = "''user''"
      and v = "PyInt 7" and d = PyNone]
  by simp

section \<open>The predicates\<close>

text \<open>
  Claim C8. For every task and state, each of \<^verbatim>\<open>has_app_context\<close>, \<^verbatim>\<open>has_request_context\<close>
  and \<^verbatim>\<open>has_websocket_context\<close> is true exactly when the task's stack of that kind is
  not empty. The three are functions from the state to a truth value: they return no
  new state and no exception.
\<close>

theorem has_context_iff_stack_nonempty:
  "has_app_context t s = (app_ctx_stack s t \<noteq> []) \<and>
   has_request_context t s = (request_ctx_stack s t \<noteq> []) \<and>
   has_websocket_context t s = (websocket_ctx_stack s t \<noteq> [])"
  by (simp add: has_app_context_def has_request_context_def has_websocket_context_def
      LocalStack_top_def split: list.splits)

section \<open>after\_this\_request\<close>

lemma after_this_request_active:
  "request_ctx_stack s t = ctx # rest \<Longrightarrow>
   after_this_request t func s =
     (Inr func, s\<lparr>request_ctxs := (request_ctxs s)(ctx := (request_ctxs s ctx)
                \<lparr>after_request_functions := after_request_functions (request_ctxs s ctx) @ [func]\<rparr>)\<rparr>)"
  by (simp add: after_this_request_def LocalStack_top_def)

lemma register_callbacks_active:
  "request_ctx_stack s t = ctx # rest \<Longrightarrow>
   request_ctx_stack (register_callbacks t fs s) = request_ctx_stack s \<and>
   after_request_functions (request_ctxs (register_callbacks t fs s) ctx) =
     after_request_functions (request_ctxs s ctx) @ fs"
proof (induction fs arbitrary: s)
  case Nil
  then show ?case by simp
next
  case (Cons f fs)
  let ?s1 = "snd (after_this_request t f s)"
  have st: "request_ctx_stack ?s1 = request_ctx_stack s"
    using Cons.prems by (simp add: after_this_request_active)
  have fl: "after_request_functions (request_ctxs ?s1 ctx) =
              after_request_functions (request_ctxs s ctx) @ [f]"
    using Cons.prems by (simp add: after_this_request_active)
  from st Cons.prems have "request_ctx_stack ?s1 t = ctx # rest" by simp
  from Cons.IH[OF this] st fl show ?case by simp
qed

lemma entered_state_stack: "request_ctx_stack (entered_state plain_app) 0 = [0]"
  by (simp add: scenario_defs model_defs)

text \<open>
  Claim C6. A call of \<^verbatim>\<open>after_this_request\<close> in a task with no RequestContext active
  fails, with the AttributeError of reading \<^verbatim>\<open>_after_request_functions\<close> of \<^verbatim>\<open>None\<close> (the
  specification's \<^verbatim>\<open>NoActiveContextError\<close>), and changes nothing. With a RequestContext
  active the callback is appended at the end of that context's list, the stacks stay as
  they were, and callbacks registered one after the other are held in the order of
  registration.
\<close>

theorem after_this_request_registers:
  "(request_ctx_stack s t = [] \<longrightarrow> after_this_request t func s = (Inl AttributeError, s)) \<and>
   (request_ctx_stack s t = ctx # rest \<longrightarrow>
      after_request_functions (request_ctxs (snd (after_this_request t func s)) ctx) =
        after_request_functions (request_ctxs s ctx) @ [func] \<and>
      request_ctx_stack (snd (after_this_request t func s)) = request_ctx_stack s \<and>
      after_request_functions (request_ctxs (register_callbacks t fs s) ctx) =
        after_request_functions (request_ctxs s ctx) @ fs)"
  using register_callbacks_active[of s t ctx rest fs]
  by (simp add: after_this_request_def LocalStack_top_def)

text \<open>Outside any context the call fails; inside one, two callbacks keep their order.\<close>

theorem after_this_request_registers_witness:
  "request_ctx_stack init_state 0 = [] \<and>
   request_ctx_stack (entered_state plain_app) 0 = [0] \<and>
   after_this_request 0 (Callable ''set_cookie'') init_state = (Inl AttributeError, init_state) \<and>
   after_request_functions (request_ctxs
       (register_callbacks 0 [Callable ''set_cookie'', Callable ''add_header'']
          (entered_state plain_app)) 0)
     = after_request_functions (request_ctxs (entered_state plain_app) 0)
         @ [Callable ''set_cookie'', Callable ''add_header'']"
proof -
  have h0: "request_ctx_stack init_state 0 = []"
    by (simp add: init_state_def)
  note h1 = entered_state_stack
  from after_this_request_registers [where s = init_state and t = 0
      and func = "Callable ''set_cookie''"] h0
  have a: "after_this_request 0 (Callable ''set_cookie'') init_state = (Inl AttributeError, init_state)"
    by simp
  from after_this_request_registers [where s = "entered_state plain_app" and t = 0 and ctx = 0
      and rest = "[]" and fs = "[Callable ''set_cookie'', Callable ''add_header'']"] h1
  have b: "after_request_functions (request_ctxs
       (register_callbacks 0 [Callable ''set_cookie'', Callable ''add_header'']
          (entered_state plain_app)) 0)
     = after_request_functions (request_ctxs (entered_state plain_app) 0)
         @ [Callable ''set_cookie'', Callable ''add_header'']"
    by simp
  from h0 h1 a b show ?thesis by simp
qed

text \<open>
  Claim C10. While a RequestContext is active for the calling task,
  \<^verbatim>\<open>after_this_request\<close> returns the callable it was given, so it can decorate a function
  and leave it as it is.
\<close>

theorem after_this_request_returns_func:
  "request_ctx_stack s t \<noteq> [] \<Longrightarrow> fst (after_this_request t func s) = Inr func"
  by (simp add: after_this_request_def LocalStack_top_def split: list.splits)

theorem after_this_request_returns_func_witness:
  "request_ctx_stack (entered_state plain_app) 0 \<noteq> [] \<and>
   fst (after_this_request 0 (Callable ''set_cookie'') (entered_state plain_app))
     = Inr (Callable ''set_cookie'')"
proof -
  have h: "request_ctx_stack (entered_state plain_app) 0 \<noteq> []"
    by (simp add: entered_state_stack)
  from h after_this_request_returns_func [OF h, of "Callable ''set_cookie''"]
  show ?thesis by simp
qed

section \<open>AppContext.pop\<close>

lemma AppContext_pop_count:
  "app_reference_count (app_ctxs (snd (AppContext_pop t self exc s)) self) =
     app_reference_count (app_ctxs s self) - 1"
  by (simp add: AppContext_pop_def Let_def call_do_teardown_appcontext_def LocalStack_pop_def
      appcontext_popped_send_def split: list.splits option.splits sum.splits prod.splits)

lemma AppContext_pop_calls:
  "teardown_appcontext_calls (snd (AppContext_pop t self exc s)) =
     teardown_appcontext_calls s @
       (if app_reference_count (app_ctxs s self) - 1 \<le> 0
        then [(name (appctx_app (app_ctxs s self)), exc)] else [])"
  by (simp add: AppContext_pop_def Let_def call_do_teardown_appcontext_def LocalStack_pop_def
      appcontext_popped_send_def teardown_appcontext_calls_def map_filter_append
      List.map_filter_simps
      split: list.splits option.splits sum.splits prod.splits)

lemma AppContext_pop_stack:
  "app_ctx_stack s t = x # rest \<Longrightarrow>
     app_ctx_stack (snd (AppContext_pop t self exc s)) t = rest"
  by (simp add: AppContext_pop_def Let_def call_do_teardown_appcontext_def LocalStack_pop_def
      appcontext_popped_send_def split: list.splits option.splits sum.splits prod.splits)

lemma AppContext_pop_raises:
  "app_ctx_stack s t = x # rest \<Longrightarrow> app_reference_count (app_ctxs s self) - 1 \<le> 0 \<Longrightarrow>
   do_teardown_appcontext (appctx_app (app_ctxs s self)) exc = Some e \<Longrightarrow>
     fst (AppContext_pop t self exc s) = Inl e"
  by (simp add: AppContext_pop_def Let_def call_do_teardown_appcontext_def LocalStack_pop_def
      appcontext_popped_send_def split: list.splits option.splits sum.splits prod.splits)

lemma AppContext_pop_ok:
  assumes "app_ctx_stack s t = x # rest"
      and "do_teardown_appcontext (appctx_app (app_ctxs s self)) exc = None"
  shows "fst (AppContext_pop t self exc s) = Inr ()"
  using assms
  by (simp add: AppContext_pop_def Let_def call_do_teardown_appcontext_def LocalStack_pop_def
      appcontext_popped_send_def split: list.splits option.splits sum.splits prod.splits)

lemma AppContext_pop_frame:
  "request_ctx_stack (snd (AppContext_pop t self exc s)) = request_ctx_stack s"
  by (simp add: AppContext_pop_def Let_def call_do_teardown_appcontext_def LocalStack_pop_def
      appcontext_popped_send_def split: list.splits option.splits sum.splits prod.splits)

lemma AppContext_pop_other:
  "a \<noteq> self \<Longrightarrow> app_ctxs (snd (AppContext_pop t self exc s)) a = app_ctxs s a"
  by (simp add: AppContext_pop_def Let_def call_do_teardown_appcontext_def LocalStack_pop_def
      appcontext_popped_send_def split: list.splits option.splits sum.splits prod.splits)

text \<open>
  Claim C2. For every call \<^verbatim>\<open>pop(exc)\<close> of an AppContext: the reference count goes down by
  one; the teardown hook of the application is called, with \<open>exc\<close>, exactly when the new
  count is at most 0; the top entry of the task's application-context stack is removed
  whatever the hook does; and when the hook raises, that exception is the outcome of
  \<^verbatim>\<open>pop\<close>, in a state where the entry is already removed.
\<close>

theorem AppContext_pop_teardown_and_removal:
  "app_reference_count (app_ctxs (snd (AppContext_pop t self exc s)) self) =
     app_reference_count (app_ctxs s self) - 1 \<and>
   teardown_appcontext_calls (snd (AppContext_pop t self exc s)) =
     teardown_appcontext_calls s @
       (if app_reference_count (app_ctxs s self) - 1 \<le> 0
        then [(name (appctx_app (app_ctxs s self)), exc)] else []) \<and>
   (app_ctx_stack s t = x # rest \<longrightarrow>
      app_ctx_stack (snd (AppContext_pop t self exc s)) t = rest) \<and>
   (app_ctx_stack s t = x # rest \<and> app_reference_count (app_ctxs s self) - 1 \<le> 0 \<and>
    do_teardown_appcontext (appctx_app (app_ctxs s self)) exc = Some e \<longrightarrow>
      fst (AppContext_pop t self exc s) = Inl e \<and>
      app_ctx_stack (snd (AppContext_pop t self exc s)) t = rest)"
  using AppContext_pop_count[of t self exc s] AppContext_pop_calls[of t self exc s]
    AppContext_pop_stack[of s t x rest self exc] AppContext_pop_raises[of s t x rest self exc e]
  by blast

text \<open>
  An AppContext pushed once, of an application whose teardown hook raises: \<^verbatim>\<open>pop\<close> raises
  what the hook raised and the stack is empty.
\<close>

theorem AppContext_pop_teardown_and_removal_witness:
  "app_ctx_stack (pushed_state failing_appcontext_teardown_app) 0 = [0] \<and>
   app_reference_count (app_ctxs (pushed_state failing_appcontext_teardown_app) 0) - 1 \<le> 0 \<and>
   do_teardown_appcontext
     (appctx_app (app_ctxs (pushed_state failing_appcontext_teardown_app) 0)) None
     = Some (HookError ''teardown'') \<and>
   fst (AppContext_pop 0 0 None (pushed_state failing_appcontext_teardown_app))
     = Inl (HookError ''teardown'') \<and>
   app_ctx_stack (snd (AppContext_pop 0 0 None (pushed_state failing_appcontext_teardown_app))) 0
     = []"
proof -
  have h: "app_ctx_stack (pushed_state failing_appcontext_teardown_app) 0 = [0] \<and>
      app_reference_count (app_ctxs (pushed_state failing_appcontext_teardown_app) 0) - 1 \<le> 0 \<and>
      do_teardown_appcontext
        (appctx_app (app_ctxs (pushed_state failing_appcontext_teardown_app) 0)) None
        = Some (HookError ''teardown'')"
    by (simp add: scenario_defs model_defs)
  from h AppContext_pop_teardown_and_removal [where t = 0 and self = 0 and exc = None
      and s = "pushed_state failing_appcontext_teardown_app" and x = 0 and rest = "[]"
      and e = "HookError ''teardown''"]
  show ?thesis by simp
qed

section \<open>Entering and exiting a RequestContext\<close>

lemma Base_aenter_fresh:
  "app_ctx_stack s t = [] \<Longrightarrow>
   snd (Base_aenter t self s) =
     AppContext_push t (next_app_ctx s) (snd (AppContext_init (app self) s))"
  by (simp add: Base_aenter_def LocalStack_top_def app_context_def AppContext_init_def Let_def)

lemma Base_aenter_active:
  "app_ctx_stack s t = a # rest \<Longrightarrow> snd (Base_aenter t self s) = s"
  by (simp add: Base_aenter_def LocalStack_top_def Let_def)

lemma Base_aenter_app: "app (fst (Base_aenter t self s)) = app self"
  by (simp add: Base_aenter_def Let_def)

lemma RequestContext_aenter_fresh:
  assumes "app_ctx_stack s t = []"
  shows "app_ctx_stack (snd (RequestContext_aenter t self s)) t = [next_app_ctx s]"
    and "request_ctx_stack (snd (RequestContext_aenter t self s)) t = self # request_ctx_stack s t"
    and "app (request_ctxs (snd (RequestContext_aenter t self s)) self) = app (request_ctxs s self)"
    and "teardown_appcontext_calls (snd (RequestContext_aenter t self s)) = teardown_appcontext_calls s"
  using assms
  by (simp_all add: RequestContext_aenter_def split_def Let_def Base_aenter_fresh Base_aenter_app
      AppContext_push_def AppContext_init_def LocalStack_push_def appcontext_pushed_send_def
      teardown_appcontext_calls_def map_filter_append List.map_filter_simps)

lemma RequestContext_aenter_active:
  assumes "app_ctx_stack s t = a # rest"
  shows "app_ctx_stack (snd (RequestContext_aenter t self s)) = app_ctx_stack s"
    and "app_ctxs (snd (RequestContext_aenter t self s)) = app_ctxs s"
    and "next_app_ctx (snd (RequestContext_aenter t self s)) = next_app_ctx s"
    and "log (snd (RequestContext_aenter t self s)) = log s"
    and "app (request_ctxs (snd (RequestContext_aenter t self s)) self) = app (request_ctxs s self)"
  using assms
  by (simp_all add: RequestContext_aenter_def split_def Let_def Base_aenter_active Base_aenter_app)

lemma Base_aexit_eq:
  "Base_aexit t self exc s =
     AppContext_pop t (next_app_ctx s) exc (snd (AppContext_init (app self) s))"
  by (simp add: Base_aexit_def app_context_def AppContext_init_def)

lemma Base_aexit_app_ctx:
  "a < next_app_ctx s \<Longrightarrow> app_ctxs (snd (Base_aexit t self exc s)) a = app_ctxs s a"
  by (simp add: Base_aexit_eq AppContext_pop_other) (simp add: AppContext_init_def)

lemma Base_aexit_calls:
  "teardown_appcontext_calls (snd (Base_aexit t self exc s)) =
     teardown_appcontext_calls s @ [(name (app self), exc)]"
  by (simp add: Base_aexit_eq AppContext_pop_calls)
     (simp add: AppContext_init_def teardown_appcontext_calls_def)

lemma RequestContext_aexit_ok:
  assumes "do_teardown_request (app (request_ctxs s self)) exc = None"
      and "request_ctx_stack s t = r # rs"
  shows "RequestContext_aexit t self exc s =
           Base_aexit t (request_ctxs s self) exc
             (s\<lparr>log := log s @ [TeardownRequest (name (app (request_ctxs s self))) exc],
                request_ctx_stack := (request_ctx_stack s)(t := rs)\<rparr>)"
  using assms
  by (simp add: RequestContext_aexit_def call_do_teardown_request_def LocalStack_pop_def)

lemma RequestContext_aexit_app_ctx:
  "a < next_app_ctx s \<Longrightarrow> app_ctxs (snd (RequestContext_aexit t self exc s)) a = app_ctxs s a"
  by (simp add: RequestContext_aexit_def call_do_teardown_request_def LocalStack_pop_def
      Base_aexit_app_ctx split: option.splits list.splits)

lemma teardown_appcontext_calls_request_teardown:
  "teardown_appcontext_calls (s\<lparr>log := log s @ [TeardownRequest n e], request_ctx_stack := st\<rparr>)
     = teardown_appcontext_calls s"
  "teardown_appcontext_calls (s\<lparr>log := log s @ [TeardownRequest n e]\<rparr>)
     = teardown_appcontext_calls s"
  by (simp_all add: teardown_appcontext_calls_def map_filter_append List.map_filter_simps)

lemma RequestContext_aexit_calls_eq:
  "teardown_appcontext_calls (snd (RequestContext_aexit t self exc s)) =
     teardown_appcontext_calls s @
       (if do_teardown_request (app (request_ctxs s self)) exc = None \<and> request_ctx_stack s t \<noteq> []
        then [(name (app (request_ctxs s self)), exc)] else [])"
  by (simp add: RequestContext_aexit_def call_do_teardown_request_def LocalStack_pop_def
      Base_aexit_calls teardown_appcontext_calls_request_teardown
      split: option.splits list.splits)

lemma RequestContext_aexit_calls:
  "set (teardown_appcontext_calls (snd (RequestContext_aexit t self exc s))) \<subseteq>
     set (teardown_appcontext_calls s) \<union> {(name (app (request_ctxs s self)), exc)}"
  by (auto simp add: RequestContext_aexit_calls_eq)

lemma RequestContext_enter_exit:
  assumes "app_ctx_stack s t = []"
      and "do_teardown_request (app (request_ctxs s self)) exc = None"
      and "do_teardown_appcontext (app (request_ctxs s self)) exc = None"
  shows "fst (RequestContext_aexit t self exc (snd (RequestContext_aenter t self s))) = Inr () \<and>
         app_ctx_stack (snd (RequestContext_aexit t self exc (snd (RequestContext_aenter t self s)))) t = [] \<and>
         request_ctx_stack (snd (RequestContext_aexit t self exc (snd (RequestContext_aenter t self s)))) t
           = request_ctx_stack s t \<and>
         teardown_appcontext_calls (snd (RequestContext_aexit t self exc (snd (RequestContext_aenter t self s))))
           = teardown_appcontext_calls s @ [(name (app (request_ctxs s self)), exc)]"
proof -
  let ?s1 = "snd (RequestContext_aenter t self s)"
  let ?a = "app (request_ctxs s self)"
  let ?s1' = "?s1\<lparr>log := log ?s1 @ [TeardownRequest (name ?a) exc],
                   request_ctx_stack := (request_ctx_stack ?s1)(t := request_ctx_stack s t)\<rparr>"
  let ?s1'' = "snd (AppContext_init ?a ?s1')"
  note en = RequestContext_aenter_fresh[OF assms(1), of self]
  have ex: "RequestContext_aexit t self exc ?s1 =
              AppContext_pop t (next_app_ctx ?s1') exc ?s1''"
    using assms(2) en by (simp add: RequestContext_aexit_ok Base_aexit_eq)
  have stk: "app_ctx_stack ?s1'' t = [next_app_ctx s]"
    using en by (simp add: AppContext_init_def)
  have app': "appctx_app (app_ctxs ?s1'' (next_app_ctx ?s1')) = ?a"
    using en by (simp add: AppContext_init_def)
  have cnt: "app_reference_count (app_ctxs ?s1'' (next_app_ctx ?s1')) = 0"
    by (simp add: AppContext_init_def)
  have calls: "teardown_appcontext_calls ?s1'' = teardown_appcontext_calls s"
    using en(4) by (simp add: AppContext_init_def teardown_appcontext_calls_def
        map_filter_append List.map_filter_simps)
  have rs: "request_ctx_stack ?s1'' t = request_ctx_stack s t"
    by (simp add: AppContext_init_def)
  show ?thesis
    unfolding ex
    using AppContext_pop_ok[OF stk, of "next_app_ctx ?s1'" exc]
      AppContext_pop_stack[OF stk, of "next_app_ctx ?s1'" exc]
      AppContext_pop_calls[of t "next_app_ctx ?s1'" exc ?s1'']
      AppContext_pop_frame[of t "next_app_ctx ?s1'" exc ?s1'']
      app' cnt calls rs assms(3)
    by simp
qed

text \<open>
  Claim C3. In a task with no AppContext active, entering a RequestContext and then
  exiting it, with teardown hooks that do not raise, returns normally, leaves the
  application-context stack empty and the request stack as it was before (so empty if
  it was empty), and calls the application-context teardown hook exactly once (with the
  error given to the exit).
\<close>

theorem RequestContext_enter_exit_fresh:
  assumes "app_ctx_stack s t = []"
      and "do_teardown_request (app (request_ctxs s self)) exc = None"
      and "do_teardown_appcontext (app (request_ctxs s self)) exc = None"
  shows "fst (RequestContext_aexit t self exc (snd (RequestContext_aenter t self s))) = Inr () \<and>
         app_ctx_stack (snd (RequestContext_aexit t self exc (snd (RequestContext_aenter t self s)))) t = [] \<and>
         request_ctx_stack (snd (RequestContext_aexit t self exc (snd (RequestContext_aenter t self s)))) t
           = request_ctx_stack s t \<and>
         (request_ctx_stack s t = [] \<longrightarrow>
            request_ctx_stack
              (snd (RequestContext_aexit t self exc (snd (RequestContext_aenter t self s)))) t = []) \<and>
         teardown_appcontext_calls (snd (RequestContext_aexit t self exc (snd (RequestContext_aenter t self s))))
           = teardown_appcontext_calls s @ [(name (app (request_ctxs s self)), exc)] \<and>
         length (teardown_appcontext_calls
                   (snd (RequestContext_aexit t self exc (snd (RequestContext_aenter t self s)))))
           = length (teardown_appcontext_calls s) + 1"
  using RequestContext_enter_exit[OF assms] by simp

text \<open>A RequestContext of an application whose hooks return, in a task with no context.\<close>

theorem RequestContext_enter_exit_fresh_witness:
  "app_ctx_stack (request_state plain_app) 0 = [] \<and>
   request_ctx_stack (request_state plain_app) 0 = [] \<and>
   do_teardown_request (app (request_ctxs (request_state plain_app) 0)) None = None \<and>
   do_teardown_appcontext (app (request_ctxs (request_state plain_app) 0)) None = None \<and>
   app_ctx_stack (snd (RequestContext_aexit 0 0 None
       (snd (RequestContext_aenter 0 0 (request_state plain_app))))) 0 = [] \<and>
   request_ctx_stack (snd (RequestContext_aexit 0 0 None
       (snd (RequestContext_aenter 0 0 (request_state plain_app))))) 0 = [] \<and>
   length (teardown_appcontext_calls (snd (RequestContext_aexit 0 0 None
       (snd (RequestContext_aenter 0 0 (request_state plain_app))))))
     = length (teardown_appcontext_calls (request_state plain_app)) + 1"
proof -
  have h1: "app_ctx_stack (request_state plain_app) 0 = []"
    by (simp add: scenario_defs model_defs)
  have h2: "do_teardown_request (app (request_ctxs (request_state plain_app) 0)) None = None"
    by (simp add: scenario_defs model_defs)
  have h3: "do_teardown_appcontext (app (request_ctxs (request_state plain_app) 0)) None = None"
    by (simp add: scenario_defs model_defs)
  have h4: "request_ctx_stack (request_state plain_app) 0 = []"
    by (simp add: scenario_defs model_defs)
  from h1 h2 h3 h4 RequestContext_enter_exit_fresh [OF h1 h2 h3]
  show ?thesis by simp
qed

section \<open>A RequestContext entered inside an AppContext\<close>

text \<open>
  An AppContext is active with reference count 1 (address 0, task 0). Entering a
  RequestContext leaves its count at 1, where the claim has 2: \<^verbatim>\<open>__aenter__\<close> pushes
  only when no AppContext is active. On exit the application-context teardown hook is
  called, where the claim has no call, and the stack entry of the AppContext is
  removed.
\<close>

theorem RequestContext_nested_counterexample:
  "app_ctx_stack nested_state 0 = [0] \<and>
   app_reference_count (app_ctxs nested_state 0) = 1 \<and>
   app_reference_count (app_ctxs (snd (RequestContext_aenter 0 0 nested_state)) 0) = 1 \<and>
   app_reference_count (app_ctxs (snd (RequestContext_aenter 0 0 nested_state)) 0) \<noteq> 2 \<and>
   teardown_appcontext_calls (snd (RequestContext_aenter 0 0 nested_state)) = [] \<and>
   teardown_appcontext_calls
     (snd (RequestContext_aexit 0 0 None (snd (RequestContext_aenter 0 0 nested_state))))
     = [(''app'', None)] \<and>
   app_ctx_stack
     (snd (RequestContext_aexit 0 0 None (snd (RequestContext_aenter 0 0 nested_state)))) 0 = []"
  by (simp add: scenario_defs model_defs)

text \<open>
  Claim C1, amended. In a task where an AppContext is active with reference count 1,
  entering a RequestContext makes no implicit push: the application-context stack and
  the reference count of that AppContext (1) are as before and no signal is sent; after
  the exit the reference count of that AppContext is still 1; and an application-context
  teardown call made by the exit is given the error the exit was given.
\<close>

theorem RequestContext_nested_no_implicit_push:
  assumes "app_ctx_stack s t = a # rest"
      and "a < next_app_ctx s"
      and "app_reference_count (app_ctxs s a) = 1"
  shows "app_ctx_stack (snd (RequestContext_aenter t self s)) t = a # rest \<and>
         app_reference_count (app_ctxs (snd (RequestContext_aenter t self s)) a) = 1 \<and>
         log (snd (RequestContext_aenter t self s)) = log s \<and>
         app_reference_count (app_ctxs
           (snd (RequestContext_aexit t self exc (snd (RequestContext_aenter t self s)))) a) = 1 \<and>
         set (teardown_appcontext_calls
           (snd (RequestContext_aexit t self exc (snd (RequestContext_aenter t self s)))))
           \<subseteq> set (teardown_appcontext_calls s) \<union> {(name (app (request_ctxs s self)), exc)}"
proof -
  let ?s1 = "snd (RequestContext_aenter t self s)"
  note en = RequestContext_aenter_active[OF assms(1), of self]
  have a: "a < next_app_ctx ?s1" using assms(2) en(3) by simp
  have calls: "teardown_appcontext_calls ?s1 = teardown_appcontext_calls s"
    using en(4) by (simp add: teardown_appcontext_calls_def)
  show ?thesis
    using RequestContext_aexit_app_ctx[OF a, of t self exc]
      RequestContext_aexit_calls[of t self exc ?s1] en assms calls
    by simp
qed

theorem RequestContext_nested_no_implicit_push_witness:
  "app_ctx_stack nested_state 0 = [0] \<and>
   0 < next_app_ctx nested_state \<and>
   app_reference_count (app_ctxs nested_state 0) = 1 \<and>
   app_ctx_stack (snd (RequestContext_aenter 0 0 nested_state)) 0 = [0] \<and>
   app_reference_count (app_ctxs (snd (RequestContext_aenter 0 0 nested_state)) 0) = 1 \<and>
   app_reference_count (app_ctxs
     (snd (RequestContext_aexit 0 0 None (snd (RequestContext_aenter 0 0 nested_state)))) 0) = 1"
proof -
  have h1: "app_ctx_stack nested_state 0 = [0]"
    by (simp add: scenario_defs model_defs)
  have h2: "0 < next_app_ctx nested_state"
    by (simp add: scenario_defs model_defs)
  have h3: "app_reference_count (app_ctxs nested_state 0) = 1"
    by (simp add: scenario_defs model_defs)
  from h1 h2 h3 RequestContext_nested_no_implicit_push [OF h1 h2 h3, of 0 None]
  show ?thesis by simp
qed

section \<open>A request-teardown hook that raises\<close>

text \<open>
  Claim C7 at a failing input. Task 0 enters a RequestContext of an application whose
  request-teardown hook raises, with no AppContext active before, and exits it. The
  exit raises what the hook raised; the RequestContext is still on the request stack,
  the implicit AppContext is still on the application-context stack, and its reference
  count is still 1: \<^verbatim>\<open>__aexit__\<close> calls the hook outside any \<^verbatim>\<open>try\<close>.
\<close>

theorem RequestContext_aexit_teardown_raises:
  "fst (RequestContext_aexit 0 0 None (entered_state failing_request_teardown_app))
     = Inl (HookError ''teardown'') \<and>
   request_ctx_stack (entered_state failing_request_teardown_app) 0 = [0] \<and>
   app_ctx_stack (entered_state failing_request_teardown_app) 0 = [0] \<and>
   request_ctx_stack
     (snd (RequestContext_aexit 0 0 None (entered_state failing_request_teardown_app))) 0 = [0] \<and>
   app_ctx_stack
     (snd (RequestContext_aexit 0 0 None (entered_state failing_request_teardown_app))) 0 = [0] \<and>
   app_reference_count (app_ctxs
     (snd (RequestContext_aexit 0 0 None (entered_state failing_request_teardown_app))) 0) = 1"
  by (simp add: scenario_defs model_defs)

section \<open>Construction and route matching\<close>

lemma Base_match_request_calls:
  "match_calls (snd (Base_match_request self s)) = match_calls s + 1"
  by (simp add: Base_match_request_def call_match_def match_calls_def split: match_result.splits)

lemma Websocket_match_request_snd:
  "snd (Websocket_match_request self s) = snd (Base_match_request self s)"
  by (cases "Base_match_request self s")
     (simp add: Websocket_match_request_def split: sum.splits option.splits)

lemma Websocket_match_request_calls:
  "match_calls (snd (Websocket_match_request self s)) = match_calls s + 1"
  by (simp add: Websocket_match_request_snd Base_match_request_calls)

lemma RequestContext_init_calls:
  "match_calls (snd (RequestContext_init a rw s)) = match_calls s + 1"
proof -
  let ?c = "\<lparr>app = a, request_websocket = rw\<lparr>routing_exception := None\<rparr>,
        url_adapter = create_url_adapter a (Some rw), session = None\<rparr>"
  have "match_calls (snd (RequestContext_init a rw s)) = match_calls (snd (Base_match_request ?c s))"
    by (cases "Base_match_request ?c s")
       (simp add: RequestContext_init_def Base_init_def match_calls_def split: sum.splits)
  then show ?thesis by (simp add: Base_match_request_calls)
qed

lemma WebsocketContext_init_calls:
  "match_calls (snd (WebsocketContext_init a rw s)) = match_calls s + 1"
proof -
  let ?c = "\<lparr>app = a, request_websocket = rw\<lparr>routing_exception := None\<rparr>,
        url_adapter = create_url_adapter a (Some rw), session = None\<rparr>"
  have "match_calls (snd (WebsocketContext_init a rw s)) = match_calls (snd (Websocket_match_request ?c s))"
    by (cases "Websocket_match_request ?c s")
       (simp add: WebsocketContext_init_def Base_init_def match_calls_def split: sum.splits)
  then show ?thesis by (simp add: Websocket_match_request_calls)
qed

lemma RequestContext_init_deferred:
  "match_outcome (create_url_adapter a (Some rw)) = MatchRaises e \<Longrightarrow> routing_failure e \<Longrightarrow>
   fst (RequestContext_init a rw s) = Inr (next_request_ctx s) \<and>
   routing_exception (request_websocket
       (request_ctxs (snd (RequestContext_init a rw s)) (next_request_ctx s))) = Some e"
  by (simp add: RequestContext_init_def Base_init_def Base_match_request_def call_match_def)

lemma WebsocketContext_init_deferred:
  "match_outcome (create_url_adapter a (Some rw)) = MatchRaises e \<Longrightarrow> routing_failure e \<Longrightarrow>
   fst (WebsocketContext_init a rw s) = Inr (next_websocket_ctx s) \<and>
   routing_exception (request_websocket
       (websocket_ctxs (snd (WebsocketContext_init a rw s)) (next_websocket_ctx s))) = Some e"
  by (simp add: WebsocketContext_init_def Websocket_match_request_def Base_init_def
      Base_match_request_def call_match_def)

lemma RequestContext_init_no_raise:
  "fst (RequestContext_init a rw s) = Inl e \<Longrightarrow> \<not> routing_failure e"
  by (auto simp add: RequestContext_init_def Base_init_def Base_match_request_def call_match_def
      split: match_result.splits if_splits)

lemma WebsocketContext_init_no_raise:
  "fst (WebsocketContext_init a rw s) = Inl e \<Longrightarrow> \<not> routing_failure e"
  by (auto simp add: WebsocketContext_init_def Websocket_match_request_def Base_init_def
      Base_match_request_def call_match_def routing_failure_def
      split: match_result.splits if_splits option.splits)

text \<open>
  Claim C4. Every construction of a RequestContext or of a WebsocketContext calls
  \<^verbatim>\<open>match\<close> exactly once. When \<^verbatim>\<open>match\<close> raises NotFound, MethodNotAllowed or
  RedirectRequired, the construction returns the new context and the exception is
  stored as \<^verbatim>\<open>routing_exception\<close> of its request or websocket object. No construction
  raises one of these three.
\<close>

theorem construction_defers_routing_failure:
  "match_calls (snd (RequestContext_init a rw s)) = match_calls s + 1 \<and>
   match_calls (snd (WebsocketContext_init a rw s)) = match_calls s + 1 \<and>
   (match_outcome (create_url_adapter a (Some rw)) = MatchRaises e \<and> routing_failure e \<longrightarrow>
      fst (RequestContext_init a rw s) = Inr (next_request_ctx s) \<and>
      routing_exception (request_websocket
        (request_ctxs (snd (RequestContext_init a rw s)) (next_request_ctx s))) = Some e \<and>
      fst (WebsocketContext_init a rw s) = Inr (next_websocket_ctx s) \<and>
      routing_exception (request_websocket
        (websocket_ctxs (snd (WebsocketContext_init a rw s)) (next_websocket_ctx s))) = Some e) \<and>
   (routing_failure e' \<longrightarrow>
      fst (RequestContext_init a rw s) \<noteq> Inl e' \<and>
      fst (WebsocketContext_init a rw s) \<noteq> Inl e')"
  using RequestContext_init_calls[of a rw s] WebsocketContext_init_calls[of a rw s]
    RequestContext_init_deferred[of a rw e s] WebsocketContext_init_deferred[of a rw e s]
    RequestContext_init_no_raise[of a rw s e'] WebsocketContext_init_no_raise[of a rw s e']
  by blast

text \<open>An application whose router raises NotFound.\<close>

theorem construction_defers_routing_failure_witness:
  "match_outcome (create_url_adapter not_found_app (Some index_request)) = MatchRaises NotFound \<and>
   routing_failure NotFound \<and>
   fst (RequestContext_init not_found_app index_request init_state) = Inr 0 \<and>
   routing_exception (request_websocket
     (request_ctxs (snd (RequestContext_init not_found_app index_request init_state)) 0))
     = Some NotFound \<and>
   fst (WebsocketContext_init not_found_app index_request init_state) = Inr 0 \<and>
   routing_exception (request_websocket
     (websocket_ctxs (snd (WebsocketContext_init not_found_app index_request init_state)) 0))
     = Some NotFound \<and>
   fst (RequestContext_init not_found_app index_request init_state) \<noteq> Inl NotFound \<and>
   match_calls (snd (RequestContext_init not_found_app index_request init_state)) = 1"
proof -
  have h1: "match_outcome (create_url_adapter not_found_app (Some index_request))
              = MatchRaises NotFound"
    by (simp add: not_found_app_def test_app_def)
  have h2: "routing_failure NotFound"
    by (simp add: routing_failure_def)
  have h3: "next_request_ctx init_state = 0 \<and> next_websocket_ctx init_state = 0 \<and>
            match_calls init_state = 0"
    by (simp add: init_state_def match_calls_def)
  from h1 h2 h3 construction_defers_routing_failure [where a = not_found_app
      and rw = index_request and s = init_state and e = NotFound and e' = NotFound]
  show ?thesis by simp
qed

text \<open>
  Claim C5. When \<^verbatim>\<open>match\<close> returns a rule that is not a websocket rule, the construction
  of a WebsocketContext returns the new context, with BadRequest stored as
  \<^verbatim>\<open>routing_exception\<close> of the websocket object.
\<close>

theorem WebsocketContext_init_not_websocket_rule:
  assumes "match_outcome (create_url_adapter a (Some ws)) = Matched rule args"
      and "\<not> is_websocket rule"
  shows "fst (WebsocketContext_init a ws s) = Inr (next_websocket_ctx s) \<and>
         routing_exception (request_websocket
           (websocket_ctxs (snd (WebsocketContext_init a ws s)) (next_websocket_ctx s)))
           = Some BadRequest"
  using assms
  by (simp add: WebsocketContext_init_def Websocket_match_request_def Base_init_def
      Base_match_request_def call_match_def)

theorem WebsocketContext_init_not_websocket_rule_witness:
  "match_outcome (create_url_adapter plain_app (Some index_request)) = Matched index_rule [] \<and>
   \<not> is_websocket index_rule \<and>
   fst (WebsocketContext_init plain_app index_request init_state) = Inr 0 \<and>
   routing_exception (request_websocket
     (websocket_ctxs (snd (WebsocketContext_init plain_app index_request init_state)) 0))
     = Some BadRequest"
proof -
  have h1: "match_outcome (create_url_adapter plain_app (Some index_request))
              = Matched index_rule []"
    by (simp add: plain_app_def test_app_def)
  have h2: "\<not> is_websocket index_rule"
    by (simp add: index_rule_def)
  have h3: "next_websocket_ctx init_state = 0"
    by (simp add: init_state_def)
  from h1 h2 h3 WebsocketContext_init_not_websocket_rule [OF h1 h2, of init_state]
  show ?thesis by simp
qed

end
